theory Spec2Isabelle
  imports Complex_Main "HOL-Library.Log_Nat"
begin

section \<open>Values, claims and errors\<close>

text \<open>
  The service of \<^verbatim>\<open>src/application/AuthService.ts\<close> orchestrates four collaborators
  that the consuming application supplies. Claims are \<^verbatim>\<open>Record<string, unknown>\<close>:
  a map from property names to JavaScript values. The values a claim can carry are
  modelled by the JSON-like fragment below.
\<close>

datatype jsval = JUndefined | JNull | JBool bool | JNum int | JStr string | JObject

type_synonym TokenClaims = "string \<rightharpoonup> jsval"

text \<open>Property access \<^verbatim>\<open>o.k\<close>: a missing property reads as \<^verbatim>\<open>undefined\<close>.\<close>

definition getProp :: "TokenClaims \<Rightarrow> string \<Rightarrow> jsval" where
  "getProp obj k = (case obj k of None \<Rightarrow> JUndefined | Some v \<Rightarrow> v)"

text \<open>Object spread \<^verbatim>\<open>{ ...a, ...b }\<close>: the properties of \<open>b\<close> are copied over those of \<open>a\<close>.\<close>

definition spread :: "TokenClaims \<Rightarrow> TokenClaims \<Rightarrow> TokenClaims" where
  "spread a b = a ++ b"

text \<open>Decimal digits of a natural number, most significant first.\<close>

definition digit :: "nat \<Rightarrow> char" where
  "digit n = ''0123456789'' ! (n mod 10)"

fun decimal :: "nat \<Rightarrow> string" where
  "decimal n = (if n < 10 then [digit n] else decimal (n div 10) @ [digit (n mod 10)])"

text \<open>The coercion \<^verbatim>\<open>String(v)\<close>.\<close>

fun String_js :: "jsval \<Rightarrow> string" where
  "String_js JUndefined = ''undefined''"
| "String_js JNull = ''null''"
| "String_js (JBool b) = (if b then ''true'' else ''false'')"
| "String_js (JNum n) = (if n < 0 then CHR ''-'' # decimal (nat (- n)) else decimal (nat n))"
| "String_js (JStr s) = s"
| "String_js JObject = ''[object Object]''"

text \<open>\<^verbatim>\<open>src/domain/errors.ts\<close>: the four error codes and the error class.\<close>

datatype AuthErrorCode = USER_EXISTS | INVALID_CREDENTIALS | TOKEN_INVALID | TOKEN_BLACKLISTED

fun code_text :: "AuthErrorCode \<Rightarrow> string" where
  "code_text USER_EXISTS = ''USER_EXISTS''"
| "code_text INVALID_CREDENTIALS = ''INVALID_CREDENTIALS''"
| "code_text TOKEN_INVALID = ''TOKEN_INVALID''"
| "code_text TOKEN_BLACKLISTED = ''TOKEN_BLACKLISTED''"

text \<open>
  What can be thrown: an \<^verbatim>\<open>AuthError\<close> with its code and message, or a value of the
  collaborators' own (a driver error, a \<^verbatim>\<open>TypeError\<close>, ...), of an arbitrary type \<open>'x\<close>.
\<close>

datatype 'x thrown = AuthError AuthErrorCode string | Foreign 'x

definition new_AuthError :: "AuthErrorCode \<Rightarrow> string option \<Rightarrow> 'x thrown" where
  "new_AuthError code message =
     AuthError code (case message of None \<Rightarrow> code_text code | Some m \<Rightarrow> m)"

section \<open>Numbers\<close>

text \<open>
  A JavaScript number is an IEEE 754 double: \<^verbatim>\<open>NaN\<close>, an infinity (\<open>Infinity True\<close> is
  the positive one) or a finite value \<open>Fin x\<close>, where \<open>x\<close> is one of the reals that a
  double can hold. The two zeros are one value here; they differ only as divisors, and
  a zero divisor stands for \<open>+0\<close>.
\<close>

datatype jsnum = NaN | Infinity bool | Fin real

text \<open>The power of two with an integer exponent.\<close>

definition pow2 :: "int \<Rightarrow> real" where
  "pow2 k = (if 0 \<le> k then 2 ^ nat k else 1 / 2 ^ nat (- k))"

text \<open>
  The binary exponent of a real other than zero: the \<open>k\<close> with \<open>2^k \<le> \<bar>x\<bar> < 2^(k+1)\<close>,
  from the bit length of the integer part, or of the reciprocal below one.
\<close>

definition expo :: "real \<Rightarrow> int" where
  "expo x = (if 1 \<le> \<bar>x\<bar> then bitlen \<lfloor>\<bar>x\<bar>\<rfloor> - 1 else - bitlen (\<lceil>1 / \<bar>x\<bar>\<rceil> - 1))"

text \<open>The nearest integer, a tie going to the even one.\<close>

definition half_even :: "real \<Rightarrow> int" where
  "half_even z =
     (let f = \<lfloor>z\<rfloor>; r = z - of_int f
      in if r < 1 / 2 then f else if 1 / 2 < r then f + 1 else if even f then f else f + 1)"

text \<open>
  The double that an exact result becomes: rounded to 53 significant bits (to the
  multiple of \<open>2^-1074\<close> in the subnormal range), nearest and ties to even, and an infinity
  when the rounded magnitude reaches \<open>2^1024\<close>.
\<close>

definition to_double :: "real \<Rightarrow> jsnum" where
  "to_double x =
     (if x = 0 then Fin 0
      else
        let q = pow2 (max (expo x - 52) (- 1074));
            y = of_int (half_even (x / q)) * q
        in if 2 ^ 1024 \<le> \<bar>y\<bar> then Infinity (0 < y) else Fin y)"

text \<open>The operators \<^verbatim>\<open>*\<close>, \<^verbatim>\<open>-\<close>, \<^verbatim>\<open>/\<close> and \<^verbatim>\<open>>\<close> on numbers, and \<^verbatim>\<open>Math.floor\<close>.\<close>

fun js_mul :: "jsnum \<Rightarrow> jsnum \<Rightarrow> jsnum" where
  "js_mul NaN b = NaN"
| "js_mul a NaN = NaN"
| "js_mul (Infinity p) (Infinity q) = Infinity (p = q)"
| "js_mul (Infinity p) (Fin y) = (if y = 0 then NaN else Infinity (p = (0 < y)))"
| "js_mul (Fin x) (Infinity q) = (if x = 0 then NaN else Infinity (q = (0 < x)))"
| "js_mul (Fin x) (Fin y) = to_double (x * y)"

fun js_sub :: "jsnum \<Rightarrow> jsnum \<Rightarrow> jsnum" where
  "js_sub NaN b = NaN"
| "js_sub a NaN = NaN"
| "js_sub (Infinity p) (Infinity q) = (if p = q then NaN else Infinity p)"
| "js_sub (Infinity p) (Fin y) = Infinity p"
| "js_sub (Fin x) (Infinity q) = Infinity (\<not> q)"
| "js_sub (Fin x) (Fin y) = to_double (x - y)"

fun js_div :: "jsnum \<Rightarrow> jsnum \<Rightarrow> jsnum" where
  "js_div NaN b = NaN"
| "js_div a NaN = NaN"
| "js_div (Infinity p) (Infinity q) = NaN"
| "js_div (Infinity p) (Fin y) = Infinity (p = (0 \<le> y))"
| "js_div (Fin x) (Infinity q) = Fin 0"
| "js_div (Fin x) (Fin y) =
     (if y = 0 then (if x = 0 then NaN else Infinity (0 < x)) else to_double (x / y))"

fun js_gt :: "jsnum \<Rightarrow> jsnum \<Rightarrow> bool" where
  "js_gt NaN b = False"
| "js_gt a NaN = False"
| "js_gt (Infinity p) (Infinity q) = (p \<and> \<not> q)"
| "js_gt (Infinity p) (Fin y) = p"
| "js_gt (Fin x) (Infinity q) = (\<not> q)"
| "js_gt (Fin x) (Fin y) = (y < x)"

fun Math_floor :: "jsnum \<Rightarrow> jsnum" where
  "Math_floor NaN = NaN"
| "Math_floor (Infinity p) = Infinity p"
| "Math_floor (Fin x) = Fin (of_int \<lfloor>x\<rfloor>)"

text \<open>The numbers for which \<^verbatim>\<open>!n\<close> holds: \<^verbatim>\<open>NaN\<close> and zero.\<close>

fun falsy :: "jsnum \<Rightarrow> bool" where
  "falsy NaN = True"
| "falsy (Infinity p) = False"
| "falsy (Fin x) = (x = 0)"

section \<open>Asynchronous calls as state passing with errors\<close>

text \<open>
  An awaited call runs against the world \<open>'s\<close> of the collaborators (database, cache,
  clock, random source), may change it, and either resolves (\<open>Inr\<close>) or rejects
  (\<open>Inl\<close>). Awaits are sequential, so \<^verbatim>\<open>const x = await m; rest\<close> is \<open>io_bind m (\<lambda>x. rest)\<close>.
\<close>

type_synonym ('s, 'x, 'a) io = "'s \<Rightarrow> ('x thrown + 'a) \<times> 's"

definition io_return :: "'a \<Rightarrow> ('s, 'x, 'a) io" where
  "io_return a = (\<lambda>s. (Inr a, s))"

definition io_throw :: "'x thrown \<Rightarrow> ('s, 'x, 'a) io" where
  "io_throw e = (\<lambda>s. (Inl e, s))"

definition io_bind :: "('s, 'x, 'a) io \<Rightarrow> ('a \<Rightarrow> ('s, 'x, 'b) io) \<Rightarrow> ('s, 'x, 'b) io" where
  "io_bind m f = (\<lambda>s. case m s of (Inl e, s') \<Rightarrow> (Inl e, s') | (Inr a, s') \<Rightarrow> f a s')"

text \<open>\<^verbatim>\<open>try { m } catch (e) { h }\<close>: the effects of \<open>m\<close> up to the throw stay.\<close>

definition io_catch :: "('s, 'x, 'a) io \<Rightarrow> ('x thrown \<Rightarrow> ('s, 'x, 'a) io) \<Rightarrow> ('s, 'x, 'a) io" where
  "io_catch m h = (\<lambda>s. case m s of (Inl e, s') \<Rightarrow> h e s' | (Inr a, s') \<Rightarrow> (Inr a, s'))"

section \<open>Inputs, results and ports\<close>

text \<open>\<^verbatim>\<open>src/application/types.ts\<close>. A \<^verbatim>\<open>RegisterInput\<close> is a \<^verbatim>\<open>LoginInput\<close> with attributes.\<close>

record LoginInput =
  email :: string
  password :: string

record RegisterInput = LoginInput +
  attributes :: "(string \<rightharpoonup> jsval) option"

text \<open>\<^verbatim>\<open>src/domain/ports/TokenManager.ts\<close>. \<open>exp_v\<close> is the field \<^verbatim>\<open>exp\<close>, in seconds.\<close>

record VerifiedToken =
  claims :: TokenClaims
  jti :: "string option"
  exp_v :: "jsnum option"

record issue_options =
  expiresInSeconds :: "jsnum option"

record ('s, 'x) TokenManager =
  issue :: "TokenClaims \<Rightarrow> issue_options option \<Rightarrow> ('s, 'x, string) io"
  verify :: "string \<Rightarrow> ('s, 'x, VerifiedToken) io"

text \<open>
  \<^verbatim>\<open>ValidationResult\<close>: \<^verbatim>\<open>claims\<close> and \<^verbatim>\<open>user\<close> are optional properties; \<^verbatim>\<open>user\<close>, when
  present, is a user or \<^verbatim>\<open>null\<close> (\<open>Some None\<close>).
\<close>

record 'u ValidationResult =
  valid :: bool
  claims :: "TokenClaims option"
  user :: "'u option option"

record 'u LoginResult =
  user :: 'u
  token :: string

text \<open>\<^verbatim>\<open>src/domain/ports/UserRepository.ts\<close>; \<^verbatim>\<open>null\<close> is \<open>None\<close>.\<close>

record ('u, 's, 'x) UserRepository =
  findByEmail :: "string \<Rightarrow> ('s, 'x, 'u option) io"
  findById :: "string \<Rightarrow> ('s, 'x, 'u option) io"
  create :: "'u \<Rightarrow> ('s, 'x, 'u) io"
  update :: "'u \<Rightarrow> ('s, 'x, 'u) io"

text \<open>The ports \<^verbatim>\<open>PasswordHasher\<close> and \<^verbatim>\<open>CacheStore\<close>; \<open>set_c\<close> is the method \<^verbatim>\<open>set\<close>.\<close>

record ('s, 'x) PasswordHasher =
  hash :: "string \<Rightarrow> ('s, 'x, string) io"
  compare :: "string \<Rightarrow> string \<Rightarrow> ('s, 'x, bool) io"

record ('s, 'x) CacheStore =
  get :: "string \<Rightarrow> ('s, 'x, string option) io"
  set_c :: "string \<Rightarrow> string \<Rightarrow> jsnum option \<Rightarrow> ('s, 'x, unit) io"
  del :: "string \<Rightarrow> ('s, 'x, unit) io"

text \<open>
  \<^verbatim>\<open>AuthDeps<TUser>\<close>. The adapter functions are JavaScript functions too: they run
  against the same world and may throw.
\<close>

record ('u, 's, 'x) AuthDeps =
  userRepo :: "('u, 's, 'x) UserRepository"
  hasher :: "('s, 'x) PasswordHasher"
  token :: "('s, 'x) TokenManager"
  cache :: "('s, 'x) CacheStore option"
  buildUser :: "RegisterInput \<Rightarrow> string \<Rightarrow> ('s, 'x, 'u) io"
  getUserId :: "'u \<Rightarrow> ('s, 'x, string) io"
  getPasswordHash :: "'u \<Rightarrow> ('s, 'x, string) io"
  buildClaims :: "('u \<Rightarrow> ('s, 'x, TokenClaims) io) option"

section \<open>The service\<close>

text \<open>
  The four operations of \<^verbatim>\<open>AuthService\<close>, statement by statement. An absent optional
  dependency (\<^verbatim>\<open>cache\<close>, \<^verbatim>\<open>buildClaims\<close>) is \<open>None\<close>.

  \<^verbatim>\<open>if (existing)\<close> and \<^verbatim>\<open>if (!user)\<close> test a \<^verbatim>\<open>TUser | null\<close> for truthiness, and
  \<^verbatim>\<open>TUser\<close> is any type. \<open>ToBoolean\<close> says which values of the user type are truthy:
  every object is, the empty string and the number zero are not. \<^verbatim>\<open>null\<close> never is.
\<close>

definition truthy_user :: "('u \<Rightarrow> bool) \<Rightarrow> 'u option \<Rightarrow> bool" where
  "truthy_user ToBoolean found = (case found of None \<Rightarrow> False | Some u \<Rightarrow> ToBoolean u)"

text \<open>Truthiness of a \<^verbatim>\<open>string | null\<close>: \<^verbatim>\<open>null\<close> and the empty string are falsy.\<close>

definition truthy :: "string option \<Rightarrow> bool" where
  "truthy b = (case b of None \<Rightarrow> False | Some v \<Rightarrow> v \<noteq> [])"

definition blacklistKey :: "string option \<Rightarrow> string \<Rightarrow> string" where
  "blacklistKey j tok = ''auth:blacklist:'' @ (case j of None \<Rightarrow> tok | Some i \<Rightarrow> i)"

text \<open>
  \<^verbatim>\<open>computeTtlSeconds\<close>, with the reading of \<^verbatim>\<open>Date.now()\<close> as the argument \<open>now\<close>: a whole
  number of milliseconds, as a number. \<^verbatim>\<open>!exp\<close> holds for \<^verbatim>\<open>undefined\<close>, \<^verbatim>\<open>NaN\<close> and zero.
  Every operation rounds its exact result to a double.
\<close>

definition computeTtlSeconds :: "int \<Rightarrow> jsnum option \<Rightarrow> jsnum option" where
  "computeTtlSeconds now ex =
     (case ex of
        None \<Rightarrow> None
      | Some e \<Rightarrow>
          if falsy e then None
          else
            let ms = js_sub (js_mul e (Fin 1000)) (to_double (of_int now));
                s = Math_floor (js_div ms (Fin 1000))
            in Some (if js_gt s (Fin 0) then s else Fin 1))"

definition register ::
  "('u \<Rightarrow> bool) \<Rightarrow> ('u, 's, 'x) AuthDeps \<Rightarrow> RegisterInput \<Rightarrow> ('s, 'x, 'u) io" where
  "register ToBoolean deps input =
     io_bind (findByEmail (userRepo deps) (email input)) (\<lambda>existing.
     if truthy_user ToBoolean existing then io_throw (new_AuthError USER_EXISTS None)
     else
       io_bind (hash (hasher deps) (password input)) (\<lambda>hashed.
       io_bind (buildUser deps input hashed) (\<lambda>entity.
       io_bind (create (userRepo deps) entity) (\<lambda>created.
       io_return created))))"

text \<open>In \<^verbatim>\<open>login\<close>, \<^verbatim>\<open>!user\<close> holds for \<^verbatim>\<open>null\<close> and for a user that is falsy.\<close>

definition login ::
  "('u \<Rightarrow> bool) \<Rightarrow> ('u, 's, 'x) AuthDeps \<Rightarrow> LoginInput \<Rightarrow> ('s, 'x, 'u LoginResult) io" where
  "login ToBoolean deps input =
     io_bind (findByEmail (userRepo deps) (email input)) (\<lambda>found.
     case found of
       None \<Rightarrow> io_throw (new_AuthError INVALID_CREDENTIALS None)
     | Some usr \<Rightarrow>
         if \<not> ToBoolean usr then io_throw (new_AuthError INVALID_CREDENTIALS None)
         else
           io_bind (getPasswordHash deps usr) (\<lambda>stored.
           io_bind (compare (hasher deps) (password input) stored) (\<lambda>ok.
           if \<not> ok then io_throw (new_AuthError INVALID_CREDENTIALS None)
           else
             io_bind (getUserId deps usr) (\<lambda>uid.
             io_bind (case buildClaims deps of
                        Some f \<Rightarrow> f usr
                      | None \<Rightarrow> io_return Map.empty) (\<lambda>extra.
             io_bind (issue (AuthDeps.token deps)
                        (spread [''sub'' \<mapsto> JStr uid] extra) None) (\<lambda>tok.
             io_return \<lparr>LoginResult.user = usr, token = tok\<rparr>))))))"

definition validate ::
  "('u, 's, 'x) AuthDeps \<Rightarrow> string \<Rightarrow> ('s, 'x, 'u ValidationResult) io" where
  "validate deps tok =
     io_catch
       (io_bind (verify (AuthDeps.token deps) tok) (\<lambda>vt.
        io_bind (case cache deps of
                   Some c \<Rightarrow>
                     io_bind (get c (blacklistKey (jti vt) tok)) (\<lambda>b.
                     if truthy b then io_throw (new_AuthError TOKEN_BLACKLISTED None)
                     else io_return ())
                 | None \<Rightarrow> io_return ()) (\<lambda>_.
        io_bind (findById (userRepo deps)
                   (String_js (getProp (VerifiedToken.claims vt) ''sub''))) (\<lambda>usr.
        io_return \<lparr>valid = True, claims = Some (VerifiedToken.claims vt),
                    user = Some usr\<rparr>))))
       (\<lambda>e. io_return \<lparr>valid = False, claims = None, user = None\<rparr>)"

text \<open>
  \<^verbatim>\<open>logout\<close>; \<open>Date_now\<close> reads the clock of the world, and \<^verbatim>\<open>computeTtlSeconds\<close> reads it
  in the world that the verification left.
\<close>

definition logout ::
  "('s \<Rightarrow> int) \<Rightarrow> ('u, 's, 'x) AuthDeps \<Rightarrow> string \<Rightarrow> ('s, 'x, unit) io" where
  "logout Date_now deps tok =
     (case cache deps of
        None \<Rightarrow> io_return ()
      | Some c \<Rightarrow>
          io_bind (verify (AuthDeps.token deps) tok) (\<lambda>vt.
          io_bind (\<lambda>w. (Inr (computeTtlSeconds (Date_now w) (exp_v vt)), w)) (\<lambda>ttl.
          set_c c (blacklistKey (jti vt) tok) ''1'' ttl)))"

section \<open>Observing the calls an operation makes\<close>

text \<open>
  The operations are polymorphic in the world, so they can be run on collaborators that
  log every call and delegate to the real ones. The log is the sequence of calls
  the operation made, in order.
\<close>

datatype 'u call =
    FindByEmail string
  | FindById string
  | Create 'u
  | Update 'u
  | Hash string
  | Compare string string
  | Issue TokenClaims "issue_options option"
  | Verify string
  | CacheGet string
  | CacheSet string string "jsnum option"
  | CacheDel string
  | BuildUser RegisterInput string
  | GetUserId 'u
  | GetPasswordHash 'u
  | BuildClaims 'u

definition logged :: "'c \<Rightarrow> ('s, 'x, 'a) io \<Rightarrow> ('s \<times> 'c list, 'x, 'a) io" where
  "logged c m = (\<lambda>(s, tr). case m s of (r, s') \<Rightarrow> (r, (s', tr @ [c])))"

definition spy_repo ::
  "('u, 's, 'x) UserRepository \<Rightarrow> ('u, 's \<times> 'u call list, 'x) UserRepository" where
  "spy_repo r =
     \<lparr>findByEmail = (\<lambda>e. logged (FindByEmail e) (findByEmail r e)),
      findById = (\<lambda>i. logged (FindById i) (findById r i)),
      create = (\<lambda>u. logged (Create u) (create r u)),
      update = (\<lambda>u. logged (Update u) (update r u))\<rparr>"

definition spy_hasher ::
  "('s, 'x) PasswordHasher \<Rightarrow> ('s \<times> 'u call list, 'x) PasswordHasher" where
  "spy_hasher h =
     \<lparr>hash = (\<lambda>p. logged (Hash p) (hash h p)),
      compare = (\<lambda>p q. logged (Compare p q) (compare h p q))\<rparr>"

definition spy_token ::
  "('s, 'x) TokenManager \<Rightarrow> ('s \<times> 'u call list, 'x) TokenManager" where
  "spy_token t =
     \<lparr>issue = (\<lambda>c opts. logged (Issue c opts) (issue t c opts)),
      verify = (\<lambda>tok. logged (Verify tok) (verify t tok))\<rparr>"

definition spy_cache ::
  "('s, 'x) CacheStore \<Rightarrow> ('s \<times> 'u call list, 'x) CacheStore" where
  "spy_cache c =
     \<lparr>get = (\<lambda>k. logged (CacheGet k) (get c k)),
      set_c = (\<lambda>k v ttl. logged (CacheSet k v ttl) (set_c c k v ttl)),
      del = (\<lambda>k. logged (CacheDel k) (del c k))\<rparr>"

definition spy :: "('u, 's, 'x) AuthDeps \<Rightarrow> ('u, 's \<times> 'u call list, 'x) AuthDeps" where
  "spy deps =
     \<lparr>userRepo = spy_repo (userRepo deps),
      hasher = spy_hasher (hasher deps),
      token = spy_token (AuthDeps.token deps),
      cache = map_option spy_cache (cache deps),
      buildUser = (\<lambda>d h. logged (BuildUser d h) (buildUser deps d h)),
      getUserId = (\<lambda>u. logged (GetUserId u) (getUserId deps u)),
      getPasswordHash = (\<lambda>u. logged (GetPasswordHash u) (getPasswordHash deps u)),
      buildClaims = map_option (\<lambda>f u. logged (BuildClaims u) (f u)) (buildClaims deps)\<rparr>"

text \<open>The clock of a logged world is the clock of the world.\<close>

definition spy_clock :: "('s \<Rightarrow> int) \<Rightarrow> 's \<times> 'c list \<Rightarrow> int" where
  "spy_clock Date_now = (\<lambda>(s, tr). Date_now s)"

fun is_issue :: "'u call \<Rightarrow> bool" where
  "is_issue (Issue c opts) = True"
| "is_issue _ = False"

fun is_cache_call :: "'u call \<Rightarrow> bool" where
  "is_cache_call (CacheGet k) = True"
| "is_cache_call (CacheSet k v ttl) = True"
| "is_cache_call (CacheDel k) = True"
| "is_cache_call _ = False"

section \<open>In-memory collaborators\<close>

text \<open>
  The collaborators of \<^verbatim>\<open>tests/auth.spec.ts\<close>, over one world: \<^verbatim>\<open>MemoryRepo\<close> (two maps),
  \<^verbatim>\<open>SimpleHasher\<close> and \<^verbatim>\<open>MemoryCache\<close> (a map that ignores the lifetime). In place of the
  \<^verbatim>\<open>FakeToken\<close> of the tests, which encodes the verified token in the token string, the
  token manager here keeps the tokens it issued in a table and hands back what it
  stored, whatever the clock says; like \<^verbatim>\<open>FakeToken\<close> it gives a token 300 seconds when
  no \<^verbatim>\<open>expiresInSeconds\<close> is supplied. They are used to run the service on concrete inputs.
\<close>

record User =
  id_u :: string
  email_u :: string
  passwordHash_u :: string

record world =
  byId :: "string \<rightharpoonup> User"
  byEmail :: "string \<rightharpoonup> User"
  cacheMap :: "string \<rightharpoonup> string"
  tokens :: "string \<rightharpoonup> VerifiedToken"
  clock :: int

definition MemoryRepo :: "(User, world, string) UserRepository" where
  "MemoryRepo =
     \<lparr>findByEmail = (\<lambda>e w. (Inr (byEmail w e), w)),
      findById = (\<lambda>i w. (Inr (byId w i), w)),
      create = (\<lambda>u w. (Inr u, w\<lparr>byId := (byId w)(id_u u \<mapsto> u),
                                    byEmail := (byEmail w)(email_u u \<mapsto> u)\<rparr>)),
      update = (\<lambda>u w. (Inr u, w\<lparr>byId := (byId w)(id_u u \<mapsto> u),
                                    byEmail := (byEmail w)(email_u u \<mapsto> u)\<rparr>))\<rparr>"

definition SimpleHasher :: "('s, 'x) PasswordHasher" where
  "SimpleHasher =
     \<lparr>hash = (\<lambda>plain. io_return (''hashed:'' @ plain)),
      compare = (\<lambda>plain hashed. io_return (hashed = ''hashed:'' @ plain))\<rparr>"

definition MemoryCache :: "(world, string) CacheStore" where
  "MemoryCache =
     \<lparr>get = (\<lambda>k w. (Inr (cacheMap w k), w)),
      set_c = (\<lambda>k v ttl w. (Inr (), w\<lparr>cacheMap := (cacheMap w)(k \<mapsto> v)\<rparr>)),
      del = (\<lambda>k w. (Inr (), w\<lparr>cacheMap := (cacheMap w)(k := None)\<rparr>))\<rparr>"

definition TableToken :: "(world, string) TokenManager" where
  "TableToken =
     \<lparr>issue = (\<lambda>c opts w.
        let ttl = (case opts of
                     None \<Rightarrow> 300
                   | Some o_ \<Rightarrow>
                       (case expiresInSeconds o_ of Some (Fin n) \<Rightarrow> \<lfloor>n\<rfloor> | _ \<Rightarrow> 300));
            tok = ''token-for-'' @ String_js (getProp c ''sub'');
            vt = \<lparr>VerifiedToken.claims = c, jti = Some (''jti-'' @ tok),
                   exp_v = Some (Fin (of_int (clock w div 1000 + ttl)))\<rparr>
        in (Inr tok, w\<lparr>tokens := (tokens w)(tok \<mapsto> vt)\<rparr>)),
      verify = (\<lambda>tok w.
        case tokens w tok of
          None \<Rightarrow> (Inl (Foreign ''invalid''), w)
        | Some vt \<Rightarrow> (Inr vt, w))\<rparr>"

definition testBuildUser :: "RegisterInput \<Rightarrow> string \<Rightarrow> (world, string, User) io" where
  "testBuildUser d hashed =
     io_return \<lparr>id_u = ''id-'' @ email d, email_u = email d, passwordHash_u = hashed\<rparr>"

definition testDeps :: "(User, world, string) AuthDeps" where
  "testDeps =
     \<lparr>userRepo = MemoryRepo, hasher = SimpleHasher, token = TableToken,
      cache = Some MemoryCache, buildUser = testBuildUser,
      getUserId = (\<lambda>u. io_return (id_u u)),
      getPasswordHash = (\<lambda>u. io_return (passwordHash_u u)),
      buildClaims = None\<rparr>"

definition emptyWorld :: world where
  "emptyWorld =
     \<lparr>byId = Map.empty, byEmail = Map.empty, cacheMap = Map.empty, tokens = Map.empty,
      clock = 1700000000000\<rparr>"

text \<open>Fixtures: one registered user, a token issued to that user, and variations.\<close>

definition regA :: RegisterInput where
  "regA = \<lparr>email = ''a@a.com'', password = ''secret'', attributes = None\<rparr>"

definition loginA :: LoginInput where
  "loginA = \<lparr>email = ''a@a.com'', password = ''secret''\<rparr>"

definition loginWrong :: LoginInput where
  "loginWrong = \<lparr>email = ''a@a.com'', password = ''wrong''\<rparr>"

definition loginMissing :: LoginInput where
  "loginMissing = \<lparr>email = ''nobody@a.com'', password = ''secret''\<rparr>"

definition userA :: User where
  "userA = \<lparr>id_u = ''id-a@a.com'', email_u = ''a@a.com'', passwordHash_u = ''hashed:secret''\<rparr>"

definition worldA :: world where
  "worldA = emptyWorld\<lparr>byId := [''id-a@a.com'' \<mapsto> userA], byEmail := [''a@a.com'' \<mapsto> userA]\<rparr>"

definition tokA :: string where
  "tokA = ''token-for-id-a@a.com''"

definition vtA :: VerifiedToken where
  "vtA = \<lparr>VerifiedToken.claims = [''sub'' \<mapsto> JStr ''id-a@a.com''],
          jti = Some ''jti-token-for-id-a@a.com'', exp_v = Some (Fin 1700000300)\<rparr>"

definition worldL :: world where
  "worldL = worldA\<lparr>tokens := [tokA \<mapsto> vtA]\<rparr>"

text \<open>The world after \<open>tokA\<close> was logged out: its revocation marker is in the cache.\<close>

definition worldRevoked :: world where
  "worldRevoked = worldL\<lparr>cacheMap := [''auth:blacklist:jti-token-for-id-a@a.com'' \<mapsto> ''1'']\<rparr>"

text \<open>The user of \<open>tokA\<close> deleted from the store after login.\<close>

definition worldDeleted :: world where
  "worldDeleted = worldL\<lparr>byId := Map.empty, byEmail := Map.empty\<rparr>"

text \<open>A token that carries no identifier and the expiration \<open>0\<close>.\<close>

definition vtZero :: VerifiedToken where
  "vtZero = \<lparr>VerifiedToken.claims = [''sub'' \<mapsto> JStr ''id-a@a.com''], jti = None,
             exp_v = Some (Fin 0)\<rparr>"

definition worldZero :: world where
  "worldZero = worldA\<lparr>tokens := [''t0'' \<mapsto> vtZero]\<rparr>"

definition worldZeroRevoked :: world where
  "worldZeroRevoked = worldZero\<lparr>cacheMap := [''auth:blacklist:t0'' \<mapsto> ''1'']\<rparr>"

text \<open>A token whose expiration, in milliseconds, is beyond the integers that doubles hold.\<close>

definition vtBig :: VerifiedToken where
  "vtBig = \<lparr>VerifiedToken.claims = [''sub'' \<mapsto> JStr ''id-a@a.com''], jti = None,
            exp_v = Some (Fin 72057594037929)\<rparr>"

definition worldBig :: world where
  "worldBig = worldA\<lparr>tokens := [''tbig'' \<mapsto> vtBig]\<rparr>"

text \<open>A token half a second past its expiration, and one half a second before it.\<close>

definition worldLate :: world where
  "worldLate = worldL\<lparr>clock := 1700000300500\<rparr>"

definition worldSoon :: world where
  "worldSoon = worldL\<lparr>clock := 1700000299500\<rparr>"

text \<open>Truthiness of a user that is an object, and of a user that is a string.\<close>

definition ToBoolean_object :: "'u \<Rightarrow> bool" where
  "ToBoolean_object u = True"

definition ToBoolean_string :: "string \<Rightarrow> bool" where
  "ToBoolean_string u = (u \<noteq> [])"

text \<open>
  An \<^verbatim>\<open>AuthService<string>\<close>: a user is its own email, the store is the list of the
  users created, and the user with the empty email is in it.
\<close>

definition EmailRepo :: "(string, string list, string) UserRepository" where
  "EmailRepo =
     \<lparr>findByEmail = (\<lambda>e w. (Inr (if e \<in> set w then Some e else None), w)),
      findById = (\<lambda>i w. (Inr (if i \<in> set w then Some i else None), w)),
      create = (\<lambda>u w. (Inr u, w @ [u])),
      update = (\<lambda>u w. (Inr u, w))\<rparr>"

definition NoToken :: "('s, string) TokenManager" where
  "NoToken =
     \<lparr>issue = (\<lambda>c opts. io_throw (Foreign ''no tokens'')),
      verify = (\<lambda>tok. io_throw (Foreign ''no tokens''))\<rparr>"

definition emailDeps :: "(string, string list, string) AuthDeps" where
  "emailDeps =
     \<lparr>userRepo = EmailRepo, hasher = SimpleHasher, token = NoToken, cache = None,
      buildUser = (\<lambda>d hashed. io_return (email d)),
      getUserId = (\<lambda>u. io_return u),
      getPasswordHash = (\<lambda>u. io_return ''hashed:pw''),
      buildClaims = None\<rparr>"

definition regEmpty :: RegisterInput where
  "regEmpty = \<lparr>email = [], password = ''pw'', attributes = None\<rparr>"

text \<open>Configurations: no cache; a claims-builder that returns a \<^verbatim>\<open>sub\<close>; failing stores.\<close>

definition noCacheDeps :: "(User, world, string) AuthDeps" where
  "noCacheDeps = testDeps\<lparr>cache := None\<rparr>"

definition overrideDeps :: "(User, world, string) AuthDeps" where
  "overrideDeps =
     testDeps\<lparr>buildClaims := Some (\<lambda>u. io_return [''sub'' \<mapsto> JStr ''admin''])\<rparr>"

definition brokenCacheDeps :: "(User, world, string) AuthDeps" where
  "brokenCacheDeps =
     testDeps\<lparr>cache := Some (MemoryCache\<lparr>get := (\<lambda>k. io_throw (Foreign ''cache down''))\<rparr>)\<rparr>"

definition brokenRepoDeps :: "(User, world, string) AuthDeps" where
  "brokenRepoDeps =
     testDeps\<lparr>userRepo := MemoryRepo\<lparr>findById := (\<lambda>i. io_throw (Foreign ''db down''))\<rparr>\<rparr>"

text \<open>The \<^verbatim>\<open>sub\<close> of the claims of an \<^verbatim>\<open>issue\<close> call.\<close>

fun issued_sub :: "'u call \<Rightarrow> jsval option" where
  "issued_sub (Issue c opts) = c ''sub''"
| "issued_sub _ = None"

section \<open>Unfolding rules\<close>

lemmas io_defs = io_return_def io_throw_def io_bind_def io_catch_def Let_def

lemmas spy_defs =
  spy_def spy_repo_def spy_hasher_def spy_token_def spy_cache_def logged_def spy_clock_def

lemmas num_defs = to_double_def expo_def half_even_def pow2_def compute_bitlen

lemmas double_defs =
  testDeps_def MemoryRepo_def SimpleHasher_def MemoryCache_def TableToken_def
  testBuildUser_def emptyWorld_def spread_def getProp_def blacklistKey_def truthy_def
  truthy_user_def ToBoolean_object_def ToBoolean_string_def EmailRepo_def NoToken_def
  emailDeps_def

lemmas fixture_defs =
  regA_def loginA_def loginWrong_def loginMissing_def userA_def worldA_def tokA_def vtA_def
  worldL_def worldRevoked_def worldDeleted_def vtZero_def worldZero_def worldZeroRevoked_def
  vtBig_def worldBig_def worldLate_def worldSoon_def noCacheDeps_def overrideDeps_def
  brokenCacheDeps_def brokenRepoDeps_def regEmpty_def

section \<open>Rounding to a double\<close>








text \<open>The binary exponent is the one that brackets the magnitude.\<close>

lemma expo_bounds:
  assumes "x \<noteq> 0"
  shows "pow2 (expo x) \<le> \<bar>x\<bar> \<and> \<bar>x\<bar> < pow2 (expo x + 1)"
proof (cases "1 \<le> \<bar>x\<bar>")
  case True
  define n where "n = \<lfloor>\<bar>x\<bar>\<rfloor>"
  have n1: "1 \<le> n" using True unfolding n_def by linarith
  then have n0: "0 < n" by simp
  have b1: "1 \<le> bitlen n" using n1 by (simp add: bitlen_ge_iff_power)
  define k where "k = nat (bitlen n - 1)"
  have e: "expo x = int k" using True b1 by (simp add: expo_def n_def k_def)
  have k1: "nat (bitlen n) = Suc k" using b1 by (simp add: k_def)
  from bitlen_bounds [OF n0] have lo: "2 ^ k \<le> n" and hi: "n < 2 ^ Suc k"
    by (simp_all add: k_def [symmetric] k1)
  have "(2::real) ^ k = real_of_int (2 ^ k)" by simp
  also have "\<dots> \<le> real_of_int n" using lo by (rule iffD2 [OF of_int_le_iff])
  also have "\<dots> \<le> \<bar>x\<bar>" unfolding n_def by simp
  finally have l: "2 ^ k \<le> \<bar>x\<bar>" .
  have "n + 1 \<le> 2 ^ Suc k" using hi by simp
  then have "real_of_int (n + 1) \<le> real_of_int (2 ^ Suc k)"
    by (rule iffD2 [OF of_int_le_iff])
  also have "\<dots> = 2 ^ Suc k" by simp
  finally have "real_of_int (n + 1) \<le> 2 ^ Suc k" .
  moreover have "\<bar>x\<bar> < real_of_int (n + 1)" unfolding n_def by linarith
  ultimately have h: "\<bar>x\<bar> < 2 ^ Suc k" by linarith
  have p: "pow2 (int k + 1) = 2 ^ Suc k"
    by (simp add: pow2_def nat_add_distrib)
  from l h show ?thesis by (simp only: e p) (simp add: pow2_def)
next
  case False
  define y where "y = 1 / \<bar>x\<bar>"
  have x0: "0 < \<bar>x\<bar>" using assms by simp
  have y1: "1 < y" using False x0 by (simp add: y_def)
  define m where "m = \<lceil>y\<rceil> - 1"
  have m1: "1 \<le> m" using y1 unfolding m_def by linarith
  then have m0: "0 < m" by simp
  have b1: "1 \<le> bitlen m" using m1 by (simp add: bitlen_ge_iff_power)
  define k where "k = nat (bitlen m - 1)"
  have k1: "nat (bitlen m) = Suc k" using b1 by (simp add: k_def)
  have e: "expo x = - int (Suc k)" using False b1
    by (simp add: expo_def m_def y_def k_def)
  from bitlen_bounds [OF m0] have lo: "2 ^ k \<le> m" and hi: "m < 2 ^ Suc k"
    by (simp_all add: k_def [symmetric] k1)
  have "(2::real) ^ k = real_of_int (2 ^ k)" by simp
  also have "\<dots> \<le> real_of_int m" using lo by (rule iffD2 [OF of_int_le_iff])
  also have "\<dots> < y" unfolding m_def by linarith
  finally have l: "2 ^ k < y" .
  have "m + 1 \<le> 2 ^ Suc k" using hi by simp
  then have "real_of_int (m + 1) \<le> real_of_int (2 ^ Suc k)"
    by (rule iffD2 [OF of_int_le_iff])
  also have "\<dots> = 2 ^ Suc k" by simp
  finally have "real_of_int (m + 1) \<le> 2 ^ Suc k" .
  moreover have "y \<le> real_of_int (m + 1)" unfolding m_def by linarith
  ultimately have h: "y \<le> 2 ^ Suc k" by linarith
  have nk: "nat (int k + 1) = Suc k" by simp
  have p1: "pow2 (- int (Suc k)) = 1 / 2 ^ Suc k" by (simp add: pow2_def nk)
  have p2: "pow2 (- int (Suc k) + 1) = 1 / 2 ^ k" by (simp add: pow2_def)
  have a: "1 / 2 ^ Suc k \<le> \<bar>x\<bar>"
    using h x0 by (simp add: y_def field_simps)
  have b: "\<bar>x\<bar> < 1 / 2 ^ k"
    using l x0 by (simp add: y_def field_simps)
  from a b show ?thesis by (simp only: e p1 p2)
qed




text \<open>Rounding at work: one tenth, and an integer beyond \<open>2^53\<close>.\<close>

lemma to_double_examples:
  "to_double (1 / 10) = Fin (3602879701896397 / 36028797018963968)"
  "to_double (72057594037929 * 1000) = Fin 72057594037928992"
  "to_double 1700000000000 = Fin 1700000000000"
  by (simp_all add: num_defs Let_def)

section \<open>The coercion to a string at work\<close>

lemma String_js_examples:
  "String_js (JNum 42) = ''42''"
  "String_js (JNum (- 5)) = ''-5''"
  "String_js (JNum 0) = ''0''"
  "String_js (JNum 1700000300) = ''1700000300''"
  "String_js (getProp Map.empty ''sub'') = ''undefined''"
  by (simp_all add: digit_def getProp_def)

section \<open>The log is transparent\<close>

text \<open>
  Running an operation on logging collaborators gives the result and the world that
  running it on the collaborators themselves gives.
\<close>

lemma spy_register:
  "register tb (spy deps) input (s, tr) = (r, (s', tr')) \<Longrightarrow> register tb deps input s = (r, s')"
  by (auto simp add: register_def io_defs spy_defs split: prod.splits sum.splits if_splits)

lemma spy_login:
  "login tb (spy deps) input (s, tr) = (r, (s', tr')) \<Longrightarrow> login tb deps input s = (r, s')"
  by (auto simp add: login_def io_defs spy_defs
           split: prod.splits sum.splits option.splits if_splits)

lemma spy_validate:
  "validate (spy deps) tok (s, tr) = (r, (s', tr')) \<Longrightarrow> validate deps tok s = (r, s')"
  by (auto simp add: validate_def io_defs spy_defs
           split: prod.splits sum.splits option.splits if_splits)

lemma spy_logout:
  "logout (spy_clock Date_now) (spy deps) tok (s, tr) = (r, (s', tr')) \<Longrightarrow>
   logout Date_now deps tok s = (r, s')"
  by (auto simp add: logout_def io_defs spy_defs
           split: prod.splits sum.splits option.splits if_splits)

section \<open>The in-memory collaborators at work\<close>

lemma register_fresh: "register ToBoolean_object testDeps regA emptyWorld = (Inr userA, worldA)"
  by (simp add: register_def io_defs double_defs fixture_defs)

lemma login_fresh:
  "login ToBoolean_object testDeps loginA worldA
     = (Inr \<lparr>LoginResult.user = userA, token = tokA\<rparr>, worldL)"
  by (simp add: login_def io_defs double_defs fixture_defs)

lemma validate_fresh:
  "validate testDeps tokA worldL =
     (Inr \<lparr>valid = True, claims = Some (VerifiedToken.claims vtA), user = Some (Some userA)\<rparr>,
      worldL)"
  by (simp add: validate_def io_defs double_defs fixture_defs)

lemma verify_tokA: "verify (AuthDeps.token testDeps) tokA worldL = (Inr vtA, worldL)"
  by (simp add: double_defs fixture_defs)

section \<open>Login\<close>

text \<open>
  The claims that \<^verbatim>\<open>login\<close> hands to \<^verbatim>\<open>issue\<close>. The object literal writes \<^verbatim>\<open>sub\<close> first and
  spreads the builder's claims after it, so \<^verbatim>\<open>sub\<close> is the user's id exactly when the
  builder's mapping has no \<^verbatim>\<open>sub\<close> property of its own.
\<close>

lemma login_claims_sub:
  assumes "findByEmail (userRepo deps) (email input) s = (Inr (Some u), s1)"
    and "tb u"
    and "getPasswordHash deps u s1 = (Inr stored, s2)"
    and "compare (hasher deps) (password input) stored s2 = (Inr True, s3)"
    and "getUserId deps u s3 = (Inr uid, s4)"
    and "case buildClaims deps of
           None \<Rightarrow> extra = Map.empty \<and> s5 = s4
         | Some f \<Rightarrow> f u s4 = (Inr extra, s5)"
  shows "login tb deps input s =
           io_bind (issue (AuthDeps.token deps) (spread [''sub'' \<mapsto> JStr uid] extra) None)
             (\<lambda>tok. io_return \<lparr>LoginResult.user = u, token = tok\<rparr>) s5
       \<and> getProp (spread [''sub'' \<mapsto> JStr uid] extra) ''sub'' =
           (case extra ''sub'' of None \<Rightarrow> JStr uid | Some v \<Rightarrow> v)"
  using assms
  by (auto simp add: login_def io_defs spread_def getProp_def map_add_def
           split: option.splits)

text \<open>
  C1. The claim: whatever the claims-builder returns, the claims passed to \<^verbatim>\<open>issue\<close>
  have \<^verbatim>\<open>sub\<close> equal to the user's id. The code at a builder that returns
  \<^verbatim>\<open>{ sub: "admin" }\<close>, for the registered user whose id is \<^verbatim>\<open>id-a@a.com\<close>: the single
  \<^verbatim>\<open>issue\<close> call of the login carries \<^verbatim>\<open>sub = "admin"\<close>, the builder's value, not the id
  that \<^verbatim>\<open>getUserId\<close> returns; and \<^verbatim>\<open>validate\<close> of the token that this login returned
  looks the subject \<^verbatim>\<open>admin\<close> up and comes back with no user.
\<close>

theorem login_sub_overridden:
  "map issued_sub (filter is_issue (snd (snd (login ToBoolean_object (spy overrideDeps) loginA (worldA, [])))))
     = [Some (JStr ''admin'')]
   \<and> fst (getUserId overrideDeps userA worldA) = Inr ''id-a@a.com''
   \<and> fst (findByEmail (userRepo overrideDeps) (email loginA) worldA) = Inr (Some userA)
   \<and> fst (login ToBoolean_object overrideDeps loginA worldA)
       = Inr \<lparr>LoginResult.user = userA, token = ''token-for-admin''\<rparr>
   \<and> map_sum id ValidationResult.user
         (fst (validate overrideDeps ''token-for-admin''
                (snd (login ToBoolean_object overrideDeps loginA worldA))))
       = Inr (Some None)"
  by (simp add: login_def validate_def io_defs spy_defs double_defs fixture_defs)

text \<open>
  C6. A login for an email the store does not know, and a login whose password the
  hasher's \<^verbatim>\<open>compare\<close> rejects, both fail with \<^verbatim>\<open>INVALID_CREDENTIALS\<close>, and the two errors
  are the same value (same code, same message).
\<close>

theorem login_same_error:
  assumes "findByEmail (userRepo deps) (email missing) s = (Inr None, s1)"
    and "findByEmail (userRepo deps') (email wrong) t = (Inr (Some u), t1)"
    and "getPasswordHash deps' u t1 = (Inr stored, t2)"
    and "compare (hasher deps') (password wrong) stored t2 = (Inr False, t3)"
  shows "fst (login tb deps missing s)
           = Inl (AuthError INVALID_CREDENTIALS ''INVALID_CREDENTIALS'')
       \<and> fst (login tb' deps' wrong t) = fst (login tb deps missing s)"
  using assms by (simp add: login_def io_defs new_AuthError_def)

theorem login_same_error_witness:
  "findByEmail (userRepo testDeps) (email loginMissing) worldA = (Inr None, worldA)
   \<and> findByEmail (userRepo testDeps) (email loginWrong) worldA = (Inr (Some userA), worldA)
   \<and> getPasswordHash testDeps userA worldA = (Inr ''hashed:secret'', worldA)
   \<and> compare (hasher testDeps) (password loginWrong) ''hashed:secret'' worldA
       = (Inr False, worldA)
   \<and> fst (login ToBoolean_object testDeps loginMissing worldA)
       = Inl (AuthError INVALID_CREDENTIALS ''INVALID_CREDENTIALS'')
   \<and> fst (login ToBoolean_object testDeps loginWrong worldA)
       = fst (login ToBoolean_object testDeps loginMissing worldA)"
proof -
  have a: "findByEmail (userRepo testDeps) (email loginMissing) worldA = (Inr None, worldA)"
    by (simp add: double_defs fixture_defs)
  have b: "findByEmail (userRepo testDeps) (email loginWrong) worldA
             = (Inr (Some userA), worldA)"
    by (simp add: double_defs fixture_defs)
  have c: "getPasswordHash testDeps userA worldA = (Inr ''hashed:secret'', worldA)"
    by (simp add: io_defs double_defs fixture_defs)
  have d: "compare (hasher testDeps) (password loginWrong) ''hashed:secret'' worldA
             = (Inr False, worldA)"
    by (simp add: io_defs double_defs fixture_defs)
  from login_same_error [OF a b c d, of ToBoolean_object ToBoolean_object] a b c d
  show ?thesis
    by simp
qed

text \<open>
  C10. A login that succeeds calls \<^verbatim>\<open>issue\<close> exactly once, with the claims and with no
  options argument (\<open>None\<close>): this layer never supplies \<^verbatim>\<open>expiresInSeconds\<close>.
\<close>

theorem login_issue_without_options:
  assumes "login tb deps input s = (Inr r, s')"
  shows "\<exists>tr c. login tb (spy deps) input (s, []) = (Inr r, (s', tr))
               \<and> filter is_issue tr = [Issue c None]"
  using assms
  by (auto simp add: login_def io_defs spy_defs
           split: prod.splits sum.splits option.splits if_splits)

theorem login_issue_without_options_witness:
  "login ToBoolean_object testDeps loginA worldA
     = (Inr \<lparr>LoginResult.user = userA, token = tokA\<rparr>, worldL)
   \<and> (\<exists>tr c. login ToBoolean_object (spy testDeps) loginA (worldA, [])
                = (Inr \<lparr>LoginResult.user = userA, token = tokA\<rparr>, (worldL, tr))
              \<and> filter is_issue tr = [Issue c None])"
  using login_issue_without_options [OF login_fresh] login_fresh by simp

section \<open>Register\<close>

text \<open>
  C5, as the code has it. When the store already has a user for the email and that user
  is truthy (every object is), \<^verbatim>\<open>register\<close> fails with \<^verbatim>\<open>USER_EXISTS\<close>, and the lookup is
  the only call it makes: no \<^verbatim>\<open>hash\<close>, no \<^verbatim>\<open>buildUser\<close>, no \<^verbatim>\<open>create\<close>. The world it leaves
  is the world the lookup left, so a store whose lookup only reads is unchanged and holds
  the user it held for that email.
\<close>

theorem register_existing:
  assumes "findByEmail (userRepo deps) (email input) s = (Inr (Some u), s1)"
    and "ToBoolean u"
  shows "register ToBoolean deps input s = (Inl (AuthError USER_EXISTS ''USER_EXISTS''), s1)
       \<and> register ToBoolean (spy deps) input (s, []) =
           (Inl (AuthError USER_EXISTS ''USER_EXISTS''), (s1, [FindByEmail (email input)]))"
  using assms by (simp add: register_def truthy_user_def io_defs spy_defs new_AuthError_def)

theorem register_existing_witness:
  "register ToBoolean_object testDeps regA emptyWorld = (Inr userA, worldA)
   \<and> findByEmail (userRepo testDeps) (email regA) worldA = (Inr (Some userA), worldA)
   \<and> ToBoolean_object userA
   \<and> register ToBoolean_object testDeps regA worldA
       = (Inl (AuthError USER_EXISTS ''USER_EXISTS''), worldA)
   \<and> register ToBoolean_object (spy testDeps) regA (worldA, [])
       = (Inl (AuthError USER_EXISTS ''USER_EXISTS''), (worldA, [FindByEmail ''a@a.com'']))
   \<and> byEmail worldA ''a@a.com'' = Some userA
   \<and> dom (byId worldA) = {''id-a@a.com''}"
proof -
  have a: "findByEmail (userRepo testDeps) (email regA) worldA = (Inr (Some userA), worldA)"
    by (simp add: double_defs fixture_defs)
  have t: "ToBoolean_object userA"
    by (simp add: ToBoolean_object_def)
  have e: "email regA = ''a@a.com''"
    by (simp add: fixture_defs)
  have w: "byEmail worldA ''a@a.com'' = Some userA \<and> dom (byId worldA) = {''id-a@a.com''}"
    by (simp add: double_defs fixture_defs)
  from register_existing [where ToBoolean = ToBoolean_object, OF a t] a t e w register_fresh
  show ?thesis
    by simp
qed

text \<open>
  C5, as the claim has it, fails at a user that is falsy. In an \<^verbatim>\<open>AuthService<string>\<close>
  whose store maps the empty email to the user \<^verbatim>\<open>""\<close>, \<^verbatim>\<open>if (existing)\<close> does not hold:
  \<^verbatim>\<open>register\<close> goes on to \<^verbatim>\<open>hash\<close>, \<^verbatim>\<open>buildUser\<close> and \<^verbatim>\<open>create\<close>, resolves, and leaves
  two users for that email in the store.
\<close>

theorem register_existing_falsy:
  "findByEmail (userRepo emailDeps) (email regEmpty) [[]] = (Inr (Some []), [[]])
   \<and> register ToBoolean_string (spy emailDeps) regEmpty ([[]], []) =
       (Inr [],
        ([[], []],
         [FindByEmail [], Hash ''pw'', BuildUser regEmpty ''hashed:pw'', Create []]))"
  by (simp add: register_def io_defs spy_defs double_defs fixture_defs)

section \<open>Validate\<close>

text \<open>
  C3. \<^verbatim>\<open>validate\<close> never rejects: for every token and all collaborators it resolves,
  and it resolves either to exactly \<^verbatim>\<open>{ valid: false }\<close>, with no claims and no user, or
  to the positive result of a run in which the verification succeeded, the revocation
  check (when a cache is configured) returned without finding a marker, and the user
  lookup returned. So every failure on the path, the internal \<^verbatim>\<open>TOKEN_BLACKLISTED\<close>
  included, comes out as \<^verbatim>\<open>{ valid: false }\<close>.
\<close>

theorem validate_never_raises:
  "(\<exists>s'. validate deps tok s = (Inr \<lparr>valid = False, claims = None, user = None\<rparr>, s'))
   \<or> (\<exists>vt s1 s2 usr s3.
         verify (AuthDeps.token deps) tok s = (Inr vt, s1)
       \<and> (case cache deps of
             None \<Rightarrow> s2 = s1
           | Some c \<Rightarrow> \<exists>b. get c (blacklistKey (jti vt) tok) s1 = (Inr b, s2) \<and> \<not> truthy b)
       \<and> findById (userRepo deps) (String_js (getProp (VerifiedToken.claims vt) ''sub'')) s2
           = (Inr usr, s3)
       \<and> validate deps tok s =
           (Inr \<lparr>valid = True, claims = Some (VerifiedToken.claims vt), user = Some usr\<rparr>, s3))"
  by (auto simp add: validate_def io_defs split: prod.splits sum.splits option.splits)

text \<open>
  The four failures at work: a token the manager rejects, a revoked token, a cache whose
  \<^verbatim>\<open>get\<close> throws, a store whose \<^verbatim>\<open>findById\<close> throws.
\<close>

theorem validate_never_raises_witness:
  "fst (verify (AuthDeps.token testDeps) ''garbage'' worldL) = Inl (Foreign ''invalid'')
   \<and> validate testDeps ''garbage'' worldL
     = (Inr \<lparr>valid = False, claims = None, user = None\<rparr>, worldL)
   \<and> get MemoryCache (blacklistKey (jti vtA) tokA) worldRevoked
     = (Inr (Some ''1''), worldRevoked)
   \<and> validate testDeps tokA worldRevoked
     = (Inr \<lparr>valid = False, claims = None, user = None\<rparr>, worldRevoked)
   \<and> fst (get (the (cache brokenCacheDeps)) (blacklistKey (jti vtA) tokA) worldL)
     = Inl (Foreign ''cache down'')
   \<and> validate brokenCacheDeps tokA worldL
     = (Inr \<lparr>valid = False, claims = None, user = None\<rparr>, worldL)
   \<and> fst (findById (userRepo brokenRepoDeps) ''id-a@a.com'' worldL) = Inl (Foreign ''db down'')
   \<and> validate brokenRepoDeps tokA worldL
     = (Inr \<lparr>valid = False, claims = None, user = None\<rparr>, worldL)"
proof -
  have a: "fst (verify (AuthDeps.token testDeps) ''garbage'' worldL) = Inl (Foreign ''invalid'')"
    by (simp add: double_defs fixture_defs)
  have b: "get MemoryCache (blacklistKey (jti vtA) tokA) worldRevoked
             = (Inr (Some ''1''), worldRevoked)"
    by (simp add: double_defs fixture_defs)
  have c: "fst (get (the (cache brokenCacheDeps)) (blacklistKey (jti vtA) tokA) worldL)
             = Inl (Foreign ''cache down'')"
    by (simp add: io_defs double_defs fixture_defs)
  have d: "fst (findById (userRepo brokenRepoDeps) ''id-a@a.com'' worldL)
             = Inl (Foreign ''db down'')"
    by (simp add: io_defs double_defs fixture_defs)
  from validate_never_raises [of testDeps "''garbage''" worldL]
       validate_never_raises [of testDeps tokA worldRevoked]
       validate_never_raises [of brokenCacheDeps tokA worldL]
       validate_never_raises [of brokenRepoDeps tokA worldL]
  have "validate testDeps ''garbage'' worldL
          = (Inr \<lparr>valid = False, claims = None, user = None\<rparr>, worldL)
      \<and> validate testDeps tokA worldRevoked
          = (Inr \<lparr>valid = False, claims = None, user = None\<rparr>, worldRevoked)
      \<and> validate brokenCacheDeps tokA worldL
          = (Inr \<lparr>valid = False, claims = None, user = None\<rparr>, worldL)
      \<and> validate brokenRepoDeps tokA worldL
          = (Inr \<lparr>valid = False, claims = None, user = None\<rparr>, worldL)"
    by (simp add: validate_def io_defs double_defs fixture_defs)
  with a b c d show ?thesis
    by simp
qed

text \<open>
  C9. A token that verifies and hits no revocation marker (no cache is configured, or
  the cache returns a falsy value for the key), whose \<^verbatim>\<open>sub\<close>, coerced to a string, the
  store does not know: \<^verbatim>\<open>validate\<close> returns \<^verbatim>\<open>valid: true\<close> with the verified claims and
  \<^verbatim>\<open>user: null\<close>.
\<close>

theorem validate_deleted_subject:
  assumes "verify (AuthDeps.token deps) tok s = (Inr vt, s1)"
    and "case cache deps of
           None \<Rightarrow> s2 = s1
         | Some c \<Rightarrow> \<exists>b. get c (blacklistKey (jti vt) tok) s1 = (Inr b, s2) \<and> \<not> truthy b"
    and "findById (userRepo deps) (String_js (getProp (VerifiedToken.claims vt) ''sub'')) s2
           = (Inr None, s3)"
  shows "validate deps tok s =
           (Inr \<lparr>valid = True, claims = Some (VerifiedToken.claims vt), user = Some None\<rparr>, s3)"
  using assms by (auto simp add: validate_def io_defs split: option.splits)

theorem validate_deleted_subject_witness:
  "verify (AuthDeps.token testDeps) tokA worldDeleted = (Inr vtA, worldDeleted)
   \<and> cache testDeps = Some MemoryCache
   \<and> get MemoryCache (blacklistKey (jti vtA) tokA) worldDeleted = (Inr None, worldDeleted)
   \<and> \<not> truthy None
   \<and> findById (userRepo testDeps) (String_js (getProp (VerifiedToken.claims vtA) ''sub''))
       worldDeleted = (Inr None, worldDeleted)
   \<and> validate testDeps tokA worldDeleted =
       (Inr \<lparr>valid = True, claims = Some (VerifiedToken.claims vtA), user = Some None\<rparr>,
        worldDeleted)"
proof -
  have a: "verify (AuthDeps.token testDeps) tokA worldDeleted = (Inr vtA, worldDeleted)"
    by (simp add: double_defs fixture_defs)
  have c: "cache testDeps = Some MemoryCache"
    by (simp add: double_defs)
  have g: "get MemoryCache (blacklistKey (jti vtA) tokA) worldDeleted = (Inr None, worldDeleted)"
    by (simp add: double_defs fixture_defs)
  have t: "\<not> truthy None"
    by (simp add: truthy_def)
  have b: "case cache testDeps of
             None \<Rightarrow> worldDeleted = worldDeleted
           | Some c \<Rightarrow> \<exists>b. get c (blacklistKey (jti vtA) tokA) worldDeleted = (Inr b, worldDeleted)
                        \<and> \<not> truthy b"
    using c g t by auto
  have f: "findById (userRepo testDeps) (String_js (getProp (VerifiedToken.claims vtA) ''sub''))
             worldDeleted = (Inr None, worldDeleted)"
    by (simp add: double_defs fixture_defs)
  from validate_deleted_subject [OF a b f] a c g t f show ?thesis
    by simp
qed

section \<open>Logout\<close>








text \<open>
  C7. With a cache configured, when \<^verbatim>\<open>verify\<close> rejects the token, \<^verbatim>\<open>logout\<close> rejects with
  the same error, \<^verbatim>\<open>verify\<close> is the only call it made, and the world is the one the
  verification left: nothing was written to the cache.
\<close>

theorem logout_verify_fails:
  assumes "cache deps = Some c" and "verify (AuthDeps.token deps) tok s = (Inl e, s1)"
  shows "logout Date_now deps tok s = (Inl e, s1)
       \<and> logout (spy_clock Date_now) (spy deps) tok (s, []) = (Inl e, (s1, [Verify tok]))"
  using assms by (simp add: logout_def io_defs spy_defs)

theorem logout_verify_fails_witness:
  "cache testDeps = Some MemoryCache
   \<and> verify (AuthDeps.token testDeps) ''garbage'' worldL = (Inl (Foreign ''invalid''), worldL)
   \<and> logout clock testDeps ''garbage'' worldL = (Inl (Foreign ''invalid''), worldL)
   \<and> logout (spy_clock clock) (spy testDeps) ''garbage'' (worldL, [])
       = (Inl (Foreign ''invalid''), (worldL, [Verify ''garbage'']))
   \<and> cacheMap worldL = Map.empty"
proof -
  have c: "cache testDeps = Some MemoryCache"
    by (simp add: double_defs)
  have v: "verify (AuthDeps.token testDeps) ''garbage'' worldL
             = (Inl (Foreign ''invalid''), worldL)"
    by (simp add: double_defs fixture_defs)
  have m: "cacheMap worldL = Map.empty"
    by (simp add: double_defs fixture_defs)
  from logout_verify_fails [OF c v, of clock] c v m show ?thesis
    by simp
qed

text \<open>
  C4. With a cache configured, a token that verifies to the same result before the
  logout and after it, a cache whose \<^verbatim>\<open>get\<close> returns what a preceding successful \<^verbatim>\<open>set\<close>
  stored at the key, and a verification that leaves readable markers readable: after a
  \<^verbatim>\<open>logout\<close> that returned, \<^verbatim>\<open>validate\<close> of the same token returns \<^verbatim>\<open>{ valid: false }\<close>.
  The key that \<^verbatim>\<open>logout\<close> writes and the key that \<^verbatim>\<open>validate\<close> reads are the same string:
  \<^verbatim>\<open>auth:blacklist:\<close> followed by the verified identifier \<^verbatim>\<open>jti\<close> when there is one, and
  by the raw token otherwise. \<^verbatim>\<open>logout\<close> calls \<^verbatim>\<open>verify\<close> and \<^verbatim>\<open>set\<close> at that key with the
  value \<^verbatim>\<open>"1"\<close>; \<^verbatim>\<open>validate\<close> calls \<^verbatim>\<open>verify\<close> and \<^verbatim>\<open>get\<close> at that key, and nothing else.
\<close>

theorem logout_then_validate:
  fixes deps :: "('u, 's, 'x) AuthDeps"
  assumes cfg: "cache deps = Some c"
    and out: "logout Date_now deps tok s = (Inr (), s')"
    and v1: "verify (AuthDeps.token deps) tok s = (Inr vt, s1)"
    and v2: "verify (AuthDeps.token deps) tok s' = (Inr vt, s2)"
    and gas: "\<forall>k v ttl w w'. set_c c k v ttl w = (Inr (), w') \<longrightarrow>
                (\<exists>w''. get c k w' = (Inr (Some v), w''))"
    and frame: "\<forall>k v. (\<exists>w1. get c k s' = (Inr (Some v), w1)) \<longrightarrow>
                  (\<exists>w2. get c k s2 = (Inr (Some v), w2))"
  shows "\<exists>ttl s''.
           logout (spy_clock Date_now) (spy deps) tok (s, []) =
             (Inr (),
              (s', [Verify tok,
                    CacheSet (''auth:blacklist:'' @ (case jti vt of None \<Rightarrow> tok | Some i \<Rightarrow> i))
                      ''1'' ttl]))
         \<and> validate (spy deps) tok (s', []) =
             (Inr \<lparr>valid = False, claims = None, user = None\<rparr>,
              (s'', [Verify tok,
                     CacheGet (''auth:blacklist:'' @ (case jti vt of None \<Rightarrow> tok | Some i \<Rightarrow> i))]))
         \<and> validate deps tok s' = (Inr \<lparr>valid = False, claims = None, user = None\<rparr>, s'')"
proof -
  let ?key = "''auth:blacklist:'' @ (case jti vt of None \<Rightarrow> tok | Some i \<Rightarrow> i)"
  define ttl where "ttl = computeTtlSeconds (Date_now s1) (exp_v vt)"
  from out cfg v1 have w: "set_c c ?key ''1'' ttl s1 = (Inr (), s')"
    by (simp add: logout_def io_defs blacklistKey_def ttl_def)
  with cfg v1 have l:
    "logout (spy_clock Date_now) (spy deps) tok (s, []) =
       (Inr (), (s', [Verify tok, CacheSet ?key ''1'' ttl]))"
    by (simp add: logout_def io_defs spy_defs blacklistKey_def ttl_def)
  from w gas obtain w1 where "get c ?key s' = (Inr (Some ''1''), w1)"
    by blast
  with frame obtain w2 where g2: "get c ?key s2 = (Inr (Some ''1''), w2)"
    by blast
  from cfg v2 g2 have a:
    "validate (spy deps) tok (s', []) =
       (Inr \<lparr>valid = False, claims = None, user = None\<rparr>, (w2, [Verify tok, CacheGet ?key]))"
    by (simp add: validate_def io_defs spy_defs blacklistKey_def truthy_def)
  from cfg v2 g2 have b:
    "validate deps tok s' = (Inr \<lparr>valid = False, claims = None, user = None\<rparr>, w2)"
    by (simp add: validate_def io_defs blacklistKey_def truthy_def)
  from l a b show ?thesis by blast
qed

text \<open>
  A token with an identifier, whose marker is keyed by the identifier, and a token
  without one, whose marker is keyed by the token itself.
\<close>

theorem logout_then_validate_witness:
  "cache testDeps = Some MemoryCache
   \<and> logout clock testDeps tokA worldL = (Inr (), worldRevoked)
   \<and> verify (AuthDeps.token testDeps) tokA worldL = (Inr vtA, worldL)
   \<and> verify (AuthDeps.token testDeps) tokA worldRevoked = (Inr vtA, worldRevoked)
   \<and> validate testDeps tokA worldL =
       (Inr \<lparr>valid = True, claims = Some (VerifiedToken.claims vtA), user = Some (Some userA)\<rparr>,
        worldL)
   \<and> (\<exists>ttl s''.
         logout (spy_clock clock) (spy testDeps) tokA (worldL, []) =
           (Inr (), (worldRevoked,
              [Verify tokA, CacheSet ''auth:blacklist:jti-token-for-id-a@a.com'' ''1'' ttl]))
       \<and> validate (spy testDeps) tokA (worldRevoked, []) =
           (Inr \<lparr>valid = False, claims = None, user = None\<rparr>,
            (s'', [Verify tokA, CacheGet ''auth:blacklist:jti-token-for-id-a@a.com'']))
       \<and> validate testDeps tokA worldRevoked =
           (Inr \<lparr>valid = False, claims = None, user = None\<rparr>, s''))
   \<and> logout clock testDeps ''t0'' worldZero = (Inr (), worldZeroRevoked)
   \<and> verify (AuthDeps.token testDeps) ''t0'' worldZero = (Inr vtZero, worldZero)
   \<and> verify (AuthDeps.token testDeps) ''t0'' worldZeroRevoked = (Inr vtZero, worldZeroRevoked)
   \<and> (\<exists>ttl s''.
         logout (spy_clock clock) (spy testDeps) ''t0'' (worldZero, []) =
           (Inr (), (worldZeroRevoked, [Verify ''t0'', CacheSet ''auth:blacklist:t0'' ''1'' ttl]))
       \<and> validate (spy testDeps) ''t0'' (worldZeroRevoked, []) =
           (Inr \<lparr>valid = False, claims = None, user = None\<rparr>,
            (s'', [Verify ''t0'', CacheGet ''auth:blacklist:t0'']))
       \<and> validate testDeps ''t0'' worldZeroRevoked =
           (Inr \<lparr>valid = False, claims = None, user = None\<rparr>, s''))"
proof -
  have c: "cache testDeps = Some MemoryCache"
    by (simp add: double_defs)
  have la: "logout clock testDeps tokA worldL = (Inr (), worldRevoked)"
    by (simp add: logout_def computeTtlSeconds_def io_defs double_defs fixture_defs)
  have va: "verify (AuthDeps.token testDeps) tokA worldRevoked = (Inr vtA, worldRevoked)"
    by (simp add: double_defs fixture_defs)
  have lz: "logout clock testDeps ''t0'' worldZero = (Inr (), worldZeroRevoked)"
    by (simp add: logout_def computeTtlSeconds_def io_defs double_defs fixture_defs)
  have vz1: "verify (AuthDeps.token testDeps) ''t0'' worldZero = (Inr vtZero, worldZero)"
    by (simp add: double_defs fixture_defs)
  have vz2: "verify (AuthDeps.token testDeps) ''t0'' worldZeroRevoked
               = (Inr vtZero, worldZeroRevoked)"
    by (simp add: double_defs fixture_defs)
  have gas: "\<forall>k v ttl w w'. set_c MemoryCache k v ttl w = (Inr (), w') \<longrightarrow>
               (\<exists>w''. get MemoryCache k w' = (Inr (Some v), w''))"
    by (auto simp add: MemoryCache_def)
  have fa: "\<forall>k v. (\<exists>w1. get MemoryCache k worldRevoked = (Inr (Some v), w1)) \<longrightarrow>
                 (\<exists>w2. get MemoryCache k worldRevoked = (Inr (Some v), w2))"
    by simp
  have fz: "\<forall>k v. (\<exists>w1. get MemoryCache k worldZeroRevoked = (Inr (Some v), w1)) \<longrightarrow>
                 (\<exists>w2. get MemoryCache k worldZeroRevoked = (Inr (Some v), w2))"
    by simp
  have ja: "jti vtA = Some ''jti-token-for-id-a@a.com''" and jz: "jti vtZero = None"
    by (simp_all add: fixture_defs)
  note ta = logout_then_validate [OF c la verify_tokA va gas fa]
  note tz = logout_then_validate [OF c lz vz1 vz2 gas fz]
  from ta tz c la verify_tokA va validate_fresh lz vz1 vz2 show ?thesis
    by (simp add: ja jz)
qed

text \<open>
  C8. With no cache configured, \<^verbatim>\<open>logout\<close> returns without calling anything and leaves
  the world as it was, so \<^verbatim>\<open>validate\<close> after it is \<^verbatim>\<open>validate\<close> before it; and for a token
  that still verifies and whose subject lookup returns, \<^verbatim>\<open>validate\<close> after the logout
  returns \<^verbatim>\<open>valid: true\<close> having called \<^verbatim>\<open>verify\<close> and \<^verbatim>\<open>findById\<close> only: no cache is read.
\<close>

theorem logout_without_cache:
  assumes "cache deps = None"
  shows "logout (spy_clock Date_now) (spy deps) tok (s, []) = (Inr (), (s, []))
       \<and> validate deps tok (snd (logout Date_now deps tok s)) = validate deps tok s
       \<and> (\<forall>vt s1 usr s2.
            verify (AuthDeps.token deps) tok s = (Inr vt, s1) \<longrightarrow>
            findById (userRepo deps) (String_js (getProp (VerifiedToken.claims vt) ''sub'')) s1
              = (Inr usr, s2) \<longrightarrow>
            validate (spy deps) tok (snd (logout (spy_clock Date_now) (spy deps) tok (s, []))) =
              (Inr \<lparr>valid = True, claims = Some (VerifiedToken.claims vt), user = Some usr\<rparr>,
               (s2, [Verify tok,
                     FindById (String_js (getProp (VerifiedToken.claims vt) ''sub''))])))"
  using assms by (simp add: logout_def validate_def io_defs spy_defs)

theorem logout_without_cache_witness:
  "cache noCacheDeps = None
   \<and> verify (AuthDeps.token noCacheDeps) tokA worldL = (Inr vtA, worldL)
   \<and> findById (userRepo noCacheDeps) (String_js (getProp (VerifiedToken.claims vtA) ''sub''))
       worldL = (Inr (Some userA), worldL)
   \<and> logout (spy_clock clock) (spy noCacheDeps) tokA (worldL, []) = (Inr (), (worldL, []))
   \<and> validate (spy noCacheDeps) tokA
       (snd (logout (spy_clock clock) (spy noCacheDeps) tokA (worldL, []))) =
       (Inr \<lparr>valid = True, claims = Some (VerifiedToken.claims vtA), user = Some (Some userA)\<rparr>,
        (worldL, [Verify tokA, FindById ''id-a@a.com'']))"
proof -
  have c: "cache noCacheDeps = None"
    by (simp add: double_defs fixture_defs)
  have v: "verify (AuthDeps.token noCacheDeps) tokA worldL = (Inr vtA, worldL)"
    by (simp add: double_defs fixture_defs)
  have f: "findById (userRepo noCacheDeps)
             (String_js (getProp (VerifiedToken.claims vtA) ''sub'')) worldL
             = (Inr (Some userA), worldL)"
    by (simp add: double_defs fixture_defs)
  have i: "String_js (getProp (VerifiedToken.claims vtA) ''sub'') = ''id-a@a.com''"
    by (simp add: double_defs fixture_defs)
  note t = logout_without_cache [OF c, of clock tokA worldL]
  from t have l: "logout (spy_clock clock) (spy noCacheDeps) tokA (worldL, [])
                    = (Inr (), (worldL, []))"
    by blast
  from t v f have
    "validate (spy noCacheDeps) tokA
       (snd (logout (spy_clock clock) (spy noCacheDeps) tokA (worldL, []))) =
       (Inr \<lparr>valid = True, claims = Some (VerifiedToken.claims vtA), user = Some (Some userA)\<rparr>,
        (worldL, [Verify tokA,
                  FindById (String_js (getProp (VerifiedToken.claims vtA) ''sub''))]))"
    by blast
  with c v f l i show ?thesis
    by simp
qed

end
